theory Spec2Isabelle
  imports Complex_Main "HOL-Library.Sublist"
begin

section \<open>Python values\<close>

text \<open>
  The exceptions that the code of \<^verbatim>\<open>parsetcx.py\<close> can raise. A function that can
  raise returns \<open>error + 'a\<close>, with \<open>Inl\<close> for the exception. Python's \<open>None\<close> is the
  \<open>None\<close> of an option type.

  Floats are modelled as reals (finite values, exact arithmetic; no NaN and no infinity),
  a \<open>datetime\<close> as its number of microseconds since a fixed instant and a \<open>timedelta\<close> as
  a number of microseconds, both unbounded integers.
\<close>

datatype error =
  IndexError | NameError | UnboundLocalError | TypeError | ValueError
  | ZeroDivisionError | FileNotFoundError | XMLSyntaxError

type_synonym datetime = int
type_synonym timedelta = int

text \<open>\<open>xs[0]\<close> and \<open>xs[-1]\<close> on a list.\<close>

definition py_first :: "'a list \<Rightarrow> error + 'a" where
  "py_first xs = (case xs of [] \<Rightarrow> Inl IndexError | x # _ \<Rightarrow> Inr x)"

definition py_last :: "'a list \<Rightarrow> error + 'a" where
  "py_last xs = (if xs = [] then Inl IndexError else Inr (last xs))"

text \<open>\<open>xs[i]\<close> for an index \<open>i\<close>, negative indices counting from the end.\<close>

definition py_index :: "'a list \<Rightarrow> int \<Rightarrow> error + 'a" where
  "py_index xs i =
     (if 0 \<le> i \<and> i < int (length xs) then Inr (xs ! nat i)
      else if i < 0 \<and> - int (length xs) \<le> i then Inr (xs ! nat (int (length xs) + i))
      else Inl IndexError)"

text \<open>\<open>min(xs)\<close> and \<open>max(xs)\<close>: a ValueError on the empty sequence.\<close>

fun py_min :: "real list \<Rightarrow> error + real" where
  "py_min [] = Inl ValueError"
| "py_min (x # xs) = Inr (fold min xs x)"

fun py_max :: "real list \<Rightarrow> error + real" where
  "py_max [] = Inl ValueError"
| "py_max (x # xs) = Inr (fold max xs x)"

text \<open>True division \<open>a / b\<close> of floats.\<close>

definition py_truediv :: "real \<Rightarrow> real \<Rightarrow> error + real" where
  "py_truediv a b = (if b = 0 then Inl ZeroDivisionError else Inr (a / b))"

text \<open>\<open>timedelta.seconds\<close>: the seconds field of the normalised timedelta
  (days, seconds, microseconds), between 0 and 86399.\<close>

definition seconds :: "timedelta \<Rightarrow> int" where
  "seconds td = (td div 1000000) mod 86400"

text \<open>\<open>timedelta.total_seconds()\<close>, the whole duration in seconds; the code never calls it.\<close>

definition total_seconds :: "timedelta \<Rightarrow> real" where
  "total_seconds td = real_of_int td / 1000000"

text \<open>\<open>str.lower()\<close> on an ASCII string.\<close>

definition lower_char :: "char \<Rightarrow> char" where
  "lower_char c =
     (let n = (of_char c :: nat) in if 65 \<le> n \<and> n \<le> 90 then char_of (n + 32) else c)"

definition lower :: "string \<Rightarrow> string" where
  "lower s = map lower_char s"

section \<open>The document\<close>

text \<open>
  The text of an element, by what the library function that reads it makes of it
  (\<open>float\<close> for the numeric fields, \<open>datetime.strptime\<close> with the format
  \<^verbatim>\<open>%Y-%m-%dT%H:%M:%S.%fZ\<close> for the timestamp): a text that reads as a value, a text
  that the function rejects, or no text at all (lxml's \<open>.text\<close> is \<open>None\<close>).
\<close>

datatype 'a content = Parses 'a | Garbled | NoText

definition float_py :: "real content \<Rightarrow> error + real" where
  "float_py c = (case c of Parses v \<Rightarrow> Inr v | Garbled \<Rightarrow> Inl ValueError | NoText \<Rightarrow> Inl TypeError)"

text \<open>\<open>datetime.strptime(str(text), fmt)\<close>: \<open>str(None)\<close> is the string \<open>None\<close>, which the
  format rejects.\<close>

definition strptime_str :: "datetime content \<Rightarrow> error + datetime" where
  "strptime_str c = (case c of Parses v \<Rightarrow> Inr v | Garbled \<Rightarrow> Inl ValueError | NoText \<Rightarrow> Inl ValueError)"

text \<open>
  A trackpoint, by the first element each of the code's selectors finds under it
  (\<open>None\<close> when the selector finds none, so that \<open>xpath(...)[0]\<close> raises IndexError).
  The position holds its first latitude and its first longitude.
\<close>

record trackpoint =
  tp_Time :: "datetime content option"
  tp_HeartRateBpm_Value :: "real content option"
  tp_DistanceMeters :: "real content option"
  tp_Speed :: "real content option"
  tp_RunCadence :: "real content option"
  tp_Position :: "(real content option \<times> real content option) option"
  tp_AltitudeMeters :: "real content option"

text \<open>A lap is the list of its tracks, a track the list of its trackpoints.\<close>

type_synonym track = "trackpoint list"
type_synonym lap = "track list"

record version =
  VersionMajor :: "string option option"
  VersionMinor :: "string option option"

record activity =
  Laps :: "lap list"
  Creator_Name :: "string option option"
  Creator_Version :: "version option"

text \<open>A parsed file: its root element is the TrainingCenterDatabase, with its
  activities, or another element.\<close>

datatype document = TrainingCenterDatabase "activity list" | OtherRoot

text \<open>What opening and parsing a path gives.\<close>

datatype opened = NoFile | NotXml | Xml document

text \<open>\<open>lap.xpath('./ns:Track/ns:Trackpoint')\<close>: the trackpoints of a lap, in document order.\<close>

definition lap_trackpoints :: "lap \<Rightarrow> trackpoint list" where
  "lap_trackpoints l = concat l"

text \<open>All trackpoints of the activity, laps outer, in document order. The activity element,
  which the source calls \<open>root\<close>, is \<open>aroot\<close> throughout.\<close>

definition trackpoints :: "activity \<Rightarrow> trackpoint list" where
  "trackpoints aroot = concat (map lap_trackpoints (Laps aroot))"

text \<open>\<open>trkpt.xpath('./ns:' + var)\<close>, first match, for the selectors the code uses.\<close>

definition xpath_var :: "trackpoint \<Rightarrow> string \<Rightarrow> real content option" where
  "xpath_var trkpt var =
     (if var = ''HeartRateBpm/ns:Value'' then tp_HeartRateBpm_Value trkpt
      else if var = ''DistanceMeters'' then tp_DistanceMeters trkpt
      else if var = ''Extensions/ns3:TPX/ns3:Speed'' then tp_Speed trkpt
      else if var = ''Extensions/ns3:TPX/ns3:RunCadence'' then tp_RunCadence trkpt
      else if var = ''AltitudeMeters'' then tp_AltitudeMeters trkpt
      else None)"

text \<open>\<open>root.findall('./ns:Lap/ns:Track/ns:Trackpoint/ns:' + var)\<close>.\<close>

definition findall_var :: "activity \<Rightarrow> string \<Rightarrow> real content list" where
  "findall_var aroot var = List.map_filter (\<lambda>trkpt. xpath_var trkpt var) (trackpoints aroot)"

definition findall_Time :: "activity \<Rightarrow> datetime content list" where
  "findall_Time aroot = List.map_filter tp_Time (trackpoints aroot)"

definition findall_Position ::
  "activity \<Rightarrow> (real content option \<times> real content option) list" where
  "findall_Position aroot = List.map_filter tp_Position (trackpoints aroot)"

section \<open>Measure\<close>

text \<open>
  The two nested \<open>for\<close> loops of every \<open>get_data\<close>, over the laps and over the
  trackpoints of each lap; \<open>body\<close> is the loop body, which appends to the list built so
  far or raises.
\<close>

fun for_trkpts ::
  "('s \<Rightarrow> trackpoint \<Rightarrow> error + 's) \<Rightarrow> trackpoint list \<Rightarrow> 's \<Rightarrow> error + 's" where
  "for_trkpts body [] s = Inr s"
| "for_trkpts body (trkpt # rest) s =
     (case body s trkpt of Inl e \<Rightarrow> Inl e | Inr s' \<Rightarrow> for_trkpts body rest s')"

fun for_laps ::
  "('s \<Rightarrow> trackpoint \<Rightarrow> error + 's) \<Rightarrow> lap list \<Rightarrow> 's \<Rightarrow> error + 's" where
  "for_laps body [] s = Inr s"
| "for_laps body (l # rest) s =
     (case for_trkpts body (lap_trackpoints l) s of
        Inl e \<Rightarrow> Inl e
      | Inr s' \<Rightarrow> for_laps body rest s')"

text \<open>The body of the loop of \<open>Measure.get_data\<close>: the \<open>try\<close> appends the float of the
  field, the \<open>except IndexError\<close> appends \<open>data[-1]\<close>, which raises IndexError itself
  when \<open>data\<close> is still empty.\<close>

definition Measure_body :: "string \<Rightarrow> real list \<Rightarrow> trackpoint \<Rightarrow> error + real list" where
  "Measure_body var data trkpt =
     (case xpath_var trkpt var of
        Some c \<Rightarrow> (case float_py c of Inl e \<Rightarrow> Inl e | Inr v \<Rightarrow> Inr (data @ [v]))
      | None \<Rightarrow> (case py_last data of Inl e \<Rightarrow> Inl e | Inr v \<Rightarrow> Inr (data @ [v])))"

text \<open>\<open>Measure.get_data(root, var)\<close>; without a matching field in the whole document the
  function falls off its end and returns \<open>None\<close>.\<close>

definition Measure_get_data :: "activity \<Rightarrow> string \<Rightarrow> error + real list option" where
  "Measure_get_data aroot var =
     (if length (findall_var aroot var) \<noteq> 0
      then (case for_laps (Measure_body var) (Laps aroot) [] of
              Inl e \<Rightarrow> Inl e
            | Inr data \<Rightarrow> Inr (Some data))
      else Inr None)"

text \<open>
  A channel object is modelled by its \<open>data\<close> attribute, a list or \<open>None\<close>.
  \<open>if self.data:\<close> is false for \<open>None\<close> and for the empty list; the accessors return
  \<open>None\<close> then.
\<close>

definition if_data :: "'a list option \<Rightarrow> ('a list \<Rightarrow> error + 'b) \<Rightarrow> error + 'b option" where
  "if_data d f =
     (case d of
        None \<Rightarrow> Inr None
      | Some xs \<Rightarrow>
          if xs = [] then Inr None
          else (case f xs of Inl e \<Rightarrow> Inl e | Inr r \<Rightarrow> Inr (Some r)))"

text \<open>\<open>Measure.__len__\<close> is \<open>len(self.data)\<close>, a TypeError when \<open>data\<close> is \<open>None\<close>.\<close>

definition Measure_len :: "'a list option \<Rightarrow> error + nat" where
  "Measure_len d = (case d of None \<Rightarrow> Inl TypeError | Some xs \<Rightarrow> Inr (length xs))"

text \<open>The truth value of a channel object: no class defines \<open>__bool__\<close>, so Python
  calls \<open>__len__\<close>.\<close>

definition Measure_bool :: "'a list option \<Rightarrow> error + bool" where
  "Measure_bool d = (case Measure_len d of Inl e \<Rightarrow> Inl e | Inr n \<Rightarrow> Inr (n \<noteq> 0))"

text \<open>\<open>Measure.__getitem__\<close>.\<close>

definition Measure_getitem :: "'a list option \<Rightarrow> int \<Rightarrow> error + 'a" where
  "Measure_getitem d i = (case d of None \<Rightarrow> Inl TypeError | Some xs \<Rightarrow> py_index xs i)"

text \<open>The accessors \<open>min\<close>, \<open>max\<close> and \<open>average\<close> that HeartRate, Speed, Cadence and
  Altitude each define, with the same body.\<close>

definition stat_min :: "real list option \<Rightarrow> error + real option" where
  "stat_min d = if_data d py_min"

definition stat_max :: "real list option \<Rightarrow> error + real option" where
  "stat_max d = if_data d py_max"

definition stat_average :: "real list option \<Rightarrow> error + real option" where
  "stat_average d = if_data d (\<lambda>xs. py_truediv (sum_list xs) (real (length xs)))"

section \<open>Time and AbsTime\<close>

text \<open>The body of the loop of \<open>Time.get_data\<close>. Its \<open>except IndexError\<close> branch reads
  \<open>data[-1]\<close>, and \<open>data\<close> is a local variable that is assigned only after the loop.\<close>

definition Time_body :: "datetime list \<Rightarrow> trackpoint \<Rightarrow> error + datetime list" where
  "Time_body raw trkpt =
     (case tp_Time trkpt of
        Some c \<Rightarrow> (case strptime_str c of Inl e \<Rightarrow> Inl e | Inr v \<Rightarrow> Inr (raw @ [v]))
      | None \<Rightarrow> Inl UnboundLocalError)"

text \<open>\<open>Time.get_data(root)\<close>. The comprehension \<open>[x - raw[0] for x in raw]\<close> reads
  \<open>raw[0]\<close> once for each element of \<open>raw\<close>, so it raises nothing on an empty list.\<close>

definition Time_get_data :: "activity \<Rightarrow> error + (timedelta list \<times> datetime list) option" where
  "Time_get_data aroot =
     (if length (findall_Time aroot) \<noteq> 0
      then (case for_laps Time_body (Laps aroot) [] of
              Inl e \<Rightarrow> Inl e
            | Inr raw \<Rightarrow> Inr (Some (map (\<lambda>x. x - hd raw) raw, raw)))
      else Inr None)"

record Time =
  Time_data :: "timedelta list option"
  absolute :: "datetime list option"

text \<open>\<open>Time.__init__\<close> unpacks the result of \<open>get_data\<close> into two names; unpacking
  \<open>None\<close> is a TypeError.\<close>

definition Time_init :: "activity \<Rightarrow> error + Time" where
  "Time_init aroot =
     (case Time_get_data aroot of
        Inl e \<Rightarrow> Inl e
      | Inr None \<Rightarrow> Inl TypeError
      | Inr (Some (data, abs_time)) \<Rightarrow>
          Inr \<lparr>Time_data = Some data, absolute = Some abs_time\<rparr>)"

definition Time_duration :: "Time \<Rightarrow> error + timedelta option" where
  "Time_duration t = if_data (Time_data t) py_last"

definition Time_start :: "Time \<Rightarrow> error + datetime option" where
  "Time_start t = if_data (Time_data t) (\<lambda>_. Measure_getitem (absolute t) 0)"

definition Time_finish :: "Time \<Rightarrow> error + datetime option" where
  "Time_finish t = if_data (Time_data t) (\<lambda>_. Measure_getitem (absolute t) (- 1))"

definition AbsTime_start :: "datetime list option \<Rightarrow> error + datetime option" where
  "AbsTime_start d = if_data d py_first"

definition AbsTime_finish :: "datetime list option \<Rightarrow> error + datetime option" where
  "AbsTime_finish d = if_data d py_last"

section \<open>HeartRate, Distance, Speed, Cadence, Altitude\<close>

definition HeartRate_init :: "activity \<Rightarrow> error + real list option" where
  "HeartRate_init aroot = Measure_get_data aroot ''HeartRateBpm/ns:Value''"

definition Distance_init :: "activity \<Rightarrow> error + real list option" where
  "Distance_init aroot = Measure_get_data aroot ''DistanceMeters''"

definition Speed_init :: "activity \<Rightarrow> error + real list option" where
  "Speed_init aroot = Measure_get_data aroot ''Extensions/ns3:TPX/ns3:Speed''"

definition Cadence_init :: "activity \<Rightarrow> error + real list option" where
  "Cadence_init aroot = Measure_get_data aroot ''Extensions/ns3:TPX/ns3:RunCadence''"

definition Altitude_init :: "activity \<Rightarrow> error + real list option" where
  "Altitude_init aroot = Measure_get_data aroot ''AltitudeMeters''"

text \<open>The loop of \<open>Distance.raw\<close> over \<open>enumerate(self.data)\<close>. For \<open>i > 0\<close> it evaluates
  \<open>sum(li)\<close>, and no name \<open>li\<close> is bound in the property or in the module.\<close>

fun raw_loop :: "nat \<Rightarrow> real list \<Rightarrow> real list \<Rightarrow> error + real list" where
  "raw_loop i [] cumdist = Inr cumdist"
| "raw_loop i (val # rest) cumdist =
     (if i = 0 then raw_loop (Suc i) rest (cumdist @ [val]) else Inl NameError)"

definition Distance_raw :: "real list option \<Rightarrow> error + real list option" where
  "Distance_raw d = if_data d (\<lambda>xs. raw_loop 0 xs [])"

definition Distance_total :: "real list option \<Rightarrow> error + real option" where
  "Distance_total d = if_data d py_last"

text \<open>The loop of \<open>Altitude.change\<close> over \<open>enumerate(self.data)\<close>.\<close>

fun change_loop :: "real list \<Rightarrow> nat \<Rightarrow> real list \<Rightarrow> real list \<Rightarrow> error + real list" where
  "change_loop data i [] alt_delta = Inr alt_delta"
| "change_loop data i (val # rest) alt_delta =
     (if i = 0 then change_loop data (Suc i) rest (alt_delta @ [val - val])
      else (case py_index data (int i - 1) of
              Inl e \<Rightarrow> Inl e
            | Inr p \<Rightarrow> change_loop data (Suc i) rest (alt_delta @ [val - p])))"

definition Altitude_change :: "real list option \<Rightarrow> error + real list option" where
  "Altitude_change d = if_data d (\<lambda>xs. change_loop xs 0 xs [])"

section \<open>Location\<close>

text \<open>The body of the loop of \<open>Location.get_data\<close>: latitude first, then longitude; a
  selector that finds nothing raises the IndexError that the \<open>except\<close> catches.\<close>

definition Location_body ::
  "(real \<times> real) list \<Rightarrow> trackpoint \<Rightarrow> error + (real \<times> real) list" where
  "Location_body data trkpt =
     (let carry = (case py_last data of Inl e \<Rightarrow> Inl e | Inr v \<Rightarrow> Inr (data @ [v])) in
      case tp_Position trkpt of
        None \<Rightarrow> carry
      | Some (None, _) \<Rightarrow> carry
      | Some (Some la, lo) \<Rightarrow>
          (case float_py la of
             Inl e \<Rightarrow> Inl e
           | Inr lat \<Rightarrow>
               (case lo of
                  None \<Rightarrow> carry
                | Some c \<Rightarrow>
                    (case float_py c of
                       Inl e \<Rightarrow> Inl e
                     | Inr lon \<Rightarrow> Inr (data @ [(lat, lon)])))))"

definition Location_get_data :: "activity \<Rightarrow> error + (real \<times> real) list option" where
  "Location_get_data aroot =
     (if length (findall_Position aroot) \<noteq> 0
      then (case for_laps Location_body (Laps aroot) [] of
              Inl e \<Rightarrow> Inl e
            | Inr data \<Rightarrow> Inr (Some data))
      else Inr None)"

definition Location_init :: "activity \<Rightarrow> error + (real \<times> real) list option" where
  "Location_init aroot = Location_get_data aroot"

definition Location_start :: "(real \<times> real) list option \<Rightarrow> error + (real \<times> real) option" where
  "Location_start d = if_data d py_first"

definition Location_finish :: "(real \<times> real) list option \<Rightarrow> error + (real \<times> real) option" where
  "Location_finish d = if_data d py_last"

definition Location_latitude :: "(real \<times> real) list option \<Rightarrow> error + real list option" where
  "Location_latitude d = if_data d (\<lambda>xs. Inr (map fst xs))"

definition Location_longitude :: "(real \<times> real) list option \<Rightarrow> error + real list option" where
  "Location_longitude d = if_data d (\<lambda>xs. Inr (map snd xs))"

section \<open>Pace\<close>

text \<open>The loop of \<open>Pace.get_data\<close> over \<open>zip(_time, dist)\<close>, where \<open>t0\<close> is what
  \<open>_time[0]\<close> evaluates to in each round.\<close>

fun pace_loop ::
  "error + timedelta \<Rightarrow> (timedelta \<times> real) list \<Rightarrow> real list \<Rightarrow> error + real list" where
  "pace_loop t0 [] pace = Inr pace"
| "pace_loop t0 ((t, d) # rest) pace =
     (case t0 of
        Inl e \<Rightarrow> Inl e
      | Inr z \<Rightarrow>
          (case py_truediv (real_of_int (seconds (t - z)) / 60) (d / 1000) of
             Inl e \<Rightarrow> Inl e
           | Inr p \<Rightarrow> pace_loop t0 rest (pace @ [p])))"

text \<open>\<open>Measure.__iter__\<close> is \<open>yield from self.data\<close>, a TypeError when \<open>data\<close> is
  \<open>None\<close>.\<close>

definition Measure_iter :: "'a list option \<Rightarrow> error + 'a list" where
  "Measure_iter d = (case d of None \<Rightarrow> Inl TypeError | Some xs \<Rightarrow> Inr xs)"

text \<open>\<open>Pace.get_data(_time, dist)\<close>. The test \<open>_time and dist\<close> takes the truth value of
  \<open>_time\<close> and, when that is true, of \<open>dist\<close> (here \<open>tm\<close> and \<open>dst\<close>).\<close>

definition Pace_get_data :: "Time \<Rightarrow> real list option \<Rightarrow> error + real list option" where
  "Pace_get_data tm dst =
     (case Measure_bool (Time_data tm) of
        Inl e \<Rightarrow> Inl e
      | Inr False \<Rightarrow> Inr None
      | Inr True \<Rightarrow>
          (case Measure_bool dst of
             Inl e \<Rightarrow> Inl e
           | Inr False \<Rightarrow> Inr None
           | Inr True \<Rightarrow>
               (case Measure_iter (Time_data tm) of
                  Inl e \<Rightarrow> Inl e
                | Inr ts \<Rightarrow>
                    (case Measure_iter dst of
                       Inl e \<Rightarrow> Inl e
                     | Inr ds \<Rightarrow>
                         (case pace_loop (Measure_getitem (Time_data tm) 0) (zip ts ds) [] of
                            Inl e \<Rightarrow> Inl e
                          | Inr pace \<Rightarrow> Inr (Some pace))))))"

definition Pace_init :: "Time \<Rightarrow> real list option \<Rightarrow> error + real list option" where
  "Pace_init tm dst = Pace_get_data tm dst"

definition Pace_seconds :: "real list option \<Rightarrow> error + real list option" where
  "Pace_seconds d = if_data d (\<lambda>xs. Inr (map (\<lambda>x. x * 60) xs))"

text \<open>\<open>Pace.min\<close> is the \<open>max\<close> of the data, \<open>Pace.max\<close> the \<open>min\<close> of its positive
  entries, \<open>Pace.average\<close> the last entry.\<close>

definition Pace_min :: "real list option \<Rightarrow> error + real option" where
  "Pace_min d = if_data d py_max"

definition Pace_max :: "real list option \<Rightarrow> error + real option" where
  "Pace_max d = if_data d (\<lambda>xs. py_min (filter (\<lambda>x. x > 0) xs))"

definition Pace_average :: "real list option \<Rightarrow> error + real option" where
  "Pace_average d = if_data d py_last"

section \<open>TCXParser\<close>

text \<open>The parser object: an attribute that \<open>__init__\<close> never set is \<open>None\<close> here.\<close>

record TCXParser =
  time :: "Time option"
  heartrate :: "real list option option"
  distance :: "real list option option"
  speed :: "real list option option"
  cadence :: "real list option option"
  location :: "(real \<times> real) list option option"
  altitude :: "real list option option"
  pace :: "real list option option"
  device :: "(string option \<times> string) option"

definition no_attributes :: TCXParser where
  "no_attributes =
     \<lparr>time = None, heartrate = None, distance = None, speed = None, cadence = None,
      location = None, altitude = None, pace = None, device = None\<rparr>"

text \<open>\<open>TCXParser.get_root\<close>, on a file system \<open>fs\<close> that says what opening and parsing
  each path gives. Both \<open>[0]\<close> raise IndexError on an empty result.\<close>

definition get_root :: "(string \<Rightarrow> opened) \<Rightarrow> string option \<Rightarrow> error + activity option" where
  "get_root fs tcx_file =
     (case tcx_file of
        None \<Rightarrow> Inr None
      | Some path \<Rightarrow>
          if suffix ''.tcx'' (lower path) \<or> suffix ''.xml'' (lower path) then
            (case fs path of
               NoFile \<Rightarrow> Inl FileNotFoundError
             | NotXml \<Rightarrow> Inl XMLSyntaxError
             | Xml OtherRoot \<Rightarrow> Inl IndexError
             | Xml (TrainingCenterDatabase acts) \<Rightarrow>
                 (case py_first acts of Inl e \<Rightarrow> Inl e | Inr a \<Rightarrow> Inr (Some a)))
          else Inr None)"

text \<open>String concatenation \<open>s + t\<close> where \<open>t\<close> is the text of an element.\<close>

definition str_add :: "string \<Rightarrow> string option \<Rightarrow> error + string" where
  "str_add s t = (case t of None \<Rightarrow> Inl TypeError | Some u \<Rightarrow> Inr (s @ u))"

definition get_device_info :: "activity \<Rightarrow> error + (string option \<times> string)" where
  "get_device_info aroot =
     (case Creator_Name aroot of
        None \<Rightarrow> Inl IndexError
      | Some dev \<Rightarrow>
          (case Creator_Version aroot of
             None \<Rightarrow> Inl IndexError
           | Some t \<Rightarrow>
               (case VersionMajor t of
                  None \<Rightarrow> Inl IndexError
                | Some major \<Rightarrow>
                    (case str_add ''v'' major of
                       Inl e \<Rightarrow> Inl e
                     | Inr vm \<Rightarrow>
                         (case VersionMinor t of
                            None \<Rightarrow> Inl IndexError
                          | Some minor \<Rightarrow>
                              (case str_add (vm @ ''.'') minor of
                                 Inl e \<Rightarrow> Inl e
                               | Inr ver \<Rightarrow> Inr (dev, ver)))))))"

text \<open>One statement after another: the first exception ends the sequence.\<close>

definition and_then :: "error + 'a \<Rightarrow> ('a \<Rightarrow> error + 'b) \<Rightarrow> error + 'b" where
  "and_then r f = (case r of Inl e \<Rightarrow> Inl e | Inr v \<Rightarrow> f v)"

text \<open>The body of \<open>TCXParser.__init__\<close> once the root is found: the channels in the
  order of the source, each constructor able to raise.\<close>

definition init_channels :: "activity \<Rightarrow> error + TCXParser" where
  "init_channels aroot =
     and_then (Time_init aroot) (\<lambda>tm.
     and_then (HeartRate_init aroot) (\<lambda>hr.
     and_then (Distance_init aroot) (\<lambda>di.
     and_then (Speed_init aroot) (\<lambda>sp.
     and_then (Cadence_init aroot) (\<lambda>ca.
     and_then (Location_init aroot) (\<lambda>lo.
     and_then (Altitude_init aroot) (\<lambda>al.
     and_then (Pace_init tm di) (\<lambda>pa.
     and_then (get_device_info aroot) (\<lambda>dv.
       Inr \<lparr>time = Some tm, heartrate = Some hr, distance = Some di, speed = Some sp,
            cadence = Some ca, location = Some lo, altitude = Some al, pace = Some pa,
            device = Some dv\<rparr>)))))))))"

definition TCXParser_init :: "(string \<Rightarrow> opened) \<Rightarrow> string option \<Rightarrow> error + TCXParser" where
  "TCXParser_init fs tcx_file =
     (case get_root fs tcx_file of
        Inl e \<Rightarrow> Inl e
      | Inr None \<Rightarrow> Inr no_attributes
      | Inr (Some aroot) \<Rightarrow> init_channels aroot)"

section \<open>Example documents\<close>

text \<open>A trackpoint with no field at all, a trackpoint with a timestamp and a cumulative
  distance only, and an activity of one lap with one track and a device header.\<close>

definition no_fields :: trackpoint where
  "no_fields =
     \<lparr>tp_Time = None, tp_HeartRateBpm_Value = None, tp_DistanceMeters = None, tp_Speed = None,
      tp_RunCadence = None, tp_Position = None, tp_AltitudeMeters = None\<rparr>"

definition sample :: "datetime \<Rightarrow> real \<Rightarrow> trackpoint" where
  "sample t d = no_fields\<lparr>tp_Time := Some (Parses t), tp_DistanceMeters := Some (Parses d)\<rparr>"

definition one_lap :: "trackpoint list \<Rightarrow> activity" where
  "one_lap tps =
     \<lparr>Laps = [[tps]], Creator_Name = Some (Some ''Forerunner''),
      Creator_Version = Some \<lparr>VersionMajor = Some (Some ''3''), VersionMinor = Some (Some ''10'')\<rparr>\<rparr>"

text \<open>The documents that the properties below are run on: trackpoints ten seconds apart
  and more, with timestamps in microseconds and distances in metres.\<close>

definition three_laps :: activity where
  "three_laps =
     (one_lap [])\<lparr>Laps :=
       [[[sample 7000000 50, sample 17000000 100]],
        [[sample 27000000 150, sample 37000000 200]],
        [[sample 47000000 250], [sample 57000000 300]]]\<rparr>"

definition zero_start :: activity where
  "zero_start = one_lap [sample 0 0, sample 10000000 50]"

definition zero_start_late_heartrate :: activity where
  "zero_start_late_heartrate =
     one_lap [sample 0 0, (sample 10000000 50)\<lparr>tp_HeartRateBpm_Value := Some (Parses 120)\<rparr>]"

definition single_sample :: activity where
  "single_sample = one_lap [sample 0 1000]"

definition two_samples :: activity where
  "two_samples = one_lap [sample 0 100, sample 10000000 250]"

definition no_time :: activity where
  "no_time = one_lap [no_fields\<lparr>tp_DistanceMeters := Some (Parses 100)\<rparr>]"

definition time_only :: activity where
  "time_only = one_lap [no_fields\<lparr>tp_Time := Some (Parses 0)\<rparr>]"

definition time_gap :: activity where
  "time_gap = one_lap [sample 0 100, no_fields\<lparr>tp_DistanceMeters := Some (Parses 150)\<rparr>]"

definition time_late :: activity where
  "time_late = one_lap [no_fields\<lparr>tp_DistanceMeters := Some (Parses 0)\<rparr>, sample 10000000 50]"

definition long_run :: activity where
  "long_run = one_lap [sample 0 1000, sample 90500000 2000, sample 86460000000 3000]"

text \<open>A file system where every path holds a document with the one activity \<open>aroot\<close>, and
  one where every path holds a document with another root element.\<close>

definition holding :: "activity \<Rightarrow> string \<Rightarrow> opened" where
  "holding aroot path = Xml (TrainingCenterDatabase [aroot])"

definition other_root :: "string \<Rightarrow> opened" where
  "other_root path = Xml OtherRoot"

section \<open>The loops\<close>

lemmas example_defs = no_fields_def sample_def one_lap_def
lemmas loop_defs = trackpoints_def lap_trackpoints_def List.map_filter_def
lemmas value_defs = py_first_def py_last_def py_index_def py_truediv_def float_py_def
  strptime_str_def if_data_def
lemmas Measure_defs = Measure_get_data_def findall_var_def Measure_body_def xpath_var_def
lemmas Time_defs = Time_init_def Time_get_data_def findall_Time_def Time_body_def
lemmas Location_defs = Location_init_def Location_get_data_def findall_Position_def
  Location_body_def
lemmas root_defs = get_root_def lower_def lower_char_def suffix_def

text \<open>The nested loops visit the trackpoints of the activity in document order.\<close>

lemma for_trkpts_app:
  "for_trkpts body (xs @ ys) s =
     (case for_trkpts body xs s of Inl e \<Rightarrow> Inl e | Inr s' \<Rightarrow> for_trkpts body ys s')"
  by (induction xs arbitrary: s) (auto split: sum.splits)

lemma for_laps_flat:
  "for_laps body ls s = for_trkpts body (concat (map lap_trackpoints ls)) s"
  by (induction ls arbitrary: s) (auto simp: for_trkpts_app split: sum.splits)

lemma for_trkpts_prefix:
  assumes "\<And>s t s'. body s t = Inr s' \<Longrightarrow> \<exists>v. s' = s @ [v]" and "for_trkpts body tps s = Inr s'"
  shows "length s' = length s + length tps \<and> take (length s) s' = s"
  using assms(2)
proof (induction tps arbitrary: s)
  case Nil
  then show ?case by simp
next
  case (Cons t ts)
  then obtain s1 where b: "body s t = Inr s1" and r: "for_trkpts body ts s1 = Inr s'"
    by (auto split: sum.splits)
  from assms(1) [OF b] obtain v where s1: "s1 = s @ [v]" by blast
  from Cons.IH [OF r] have l: "length s' = length s1 + length ts" and t: "take (length s1) s' = s1"
    by auto
  have "take (length s) (take (length s1) s') = s" using t s1 by simp
  then have "take (length s) s' = s" using s1 by (simp add: min_def)
  then show ?case using l s1 by simp
qed

lemma for_trkpts_step:
  assumes "\<And>s t s'. body s t = Inr s' \<Longrightarrow> \<exists>v. s' = s @ [v]" and "for_trkpts body tps s = Inr s'" and "k < length tps"
  shows "body (take (length s + k) s') (tps ! k) = Inr (take (Suc (length s + k)) s')"
  using assms(2,3)
proof (induction tps arbitrary: s k)
  case Nil
  then show ?case by simp
next
  case (Cons t ts)
  then obtain s1 where b: "body s t = Inr s1" and r: "for_trkpts body ts s1 = Inr s'"
    by (auto split: sum.splits)
  from assms(1) [OF b] obtain v where s1: "s1 = s @ [v]" by blast
  have p1: "take (length s1) s' = s1" using for_trkpts_prefix [OF assms(1) r] by simp
  have p0: "take (length s) s' = s"
    using for_trkpts_prefix [OF assms(1) Cons.prems(1)] by simp
  show ?case
  proof (cases k)
    case 0
    then show ?thesis using b p0 p1 s1 by simp
  next
    case (Suc j)
    then have "j < length ts" using Cons.prems(2) by simp
    from Cons.IH [OF r this] show ?thesis using Suc s1 by simp
  qed
qed

lemma Measure_body_appends: "Measure_body var s t = Inr s' \<Longrightarrow> \<exists>v. s' = s @ [v]"
  by (auto simp: Measure_body_def split: option.splits sum.splits)

lemma Time_body_appends: "Time_body s t = Inr s' \<Longrightarrow> \<exists>v. s' = s @ [v]"
  by (auto simp: Time_body_def split: option.splits sum.splits)

lemma Location_body_appends: "Location_body s t = Inr s' \<Longrightarrow> \<exists>v. s' = s @ [v]"
  by (auto simp: Location_body_def Let_def split: option.splits sum.splits prod.splits)

lemma map_filter_nonempty: "List.map_filter f xs \<noteq> [] \<Longrightarrow> xs \<noteq> []"
  by (auto simp: List.map_filter_def)

lemma Time_get_data_shape:
  assumes "Time_get_data aroot = Inr (Some (data, raw))"
  shows "raw \<noteq> [] \<and> length raw = length (trackpoints aroot) \<and> data = map (\<lambda>x. x - hd raw) raw"
proof -
  from assms have ne: "findall_Time aroot \<noteq> []"
    and l: "for_trkpts Time_body (trackpoints aroot) [] = Inr raw"
    and d: "data = map (\<lambda>x. x - hd raw) raw"
    by (auto simp: Time_get_data_def for_laps_flat trackpoints_def split: if_splits sum.splits)
  from ne have "trackpoints aroot \<noteq> []"
    unfolding findall_Time_def by (rule map_filter_nonempty)
  moreover have "length raw = length (trackpoints aroot)"
    using for_trkpts_prefix [OF Time_body_appends l] by simp
  ultimately show ?thesis using d by auto
qed

lemma for_trkpts_first_error:
  "body s t = Inl e \<Longrightarrow> for_trkpts body (t # ts) s = Inl e"
  by simp

text \<open>A path that ends in \<open>.tcx\<close>, on a file system that holds the activity.\<close>

lemma get_root_run: "get_root (holding aroot) (Some ''run.tcx'') = Inr (Some aroot)"
  by (simp add: root_defs holding_def py_first_def)

section \<open>Measure: the extracted channels\<close>

text \<open>
  When \<open>Measure.get_data\<close> returns a list, the list is not empty and has one value per
  trackpoint of the activity, and the value at each index is what the loop body appended
  to the values before it.
\<close>

lemma Measure_get_data_shape:
  assumes "Measure_get_data aroot var = Inr (Some data)"
  shows "data \<noteq> [] \<and> length data = length (trackpoints aroot)"
    and "k < length data \<Longrightarrow>
           Measure_body var (take k data) (trackpoints aroot ! k) = Inr (take (Suc k) data)"
proof -
  from assms have ne: "findall_var aroot var \<noteq> []"
    and l: "for_trkpts (Measure_body var) (trackpoints aroot) [] = Inr data"
    by (auto simp: Measure_get_data_def for_laps_flat trackpoints_def split: if_splits sum.splits)
  from ne have "trackpoints aroot \<noteq> []"
    unfolding findall_var_def by (rule map_filter_nonempty)
  moreover have len: "length data = length (trackpoints aroot)"
    using for_trkpts_prefix [OF Measure_body_appends l] by simp
  ultimately show "data \<noteq> [] \<and> length data = length (trackpoints aroot)" by auto
  show "Measure_body var (take k data) (trackpoints aroot ! k) = Inr (take (Suc k) data)"
    if "k < length data"
    using for_trkpts_step [OF Measure_body_appends l, where k = k] that len by simp
qed

lemma take_Suc_snoc: "take (Suc k) xs = take k xs @ [v] \<Longrightarrow> k < length xs \<Longrightarrow> xs ! k = v"
  by (simp add: take_Suc_conv_app_nth)

text \<open>A trackpoint whose field reads as \<open>v\<close> contributes \<open>v\<close>.\<close>

lemma Measure_field_value:
  assumes "Measure_get_data aroot var = Inr (Some data)" and "k < length (trackpoints aroot)"
    and "xpath_var (trackpoints aroot ! k) var = Some (Parses v)"
  shows "data ! k = v"
proof -
  have k: "k < length data" using Measure_get_data_shape(1) [OF assms(1)] assms(2) by simp
  from Measure_get_data_shape(2) [OF assms(1) k] assms(3)
  have "take (Suc k) data = take k data @ [v]"
    by (simp add: Measure_body_def float_py_def)
  then show ?thesis using k by (rule take_Suc_snoc)
qed

text \<open>Carry-forward in HeartRate, Distance, Speed, Cadence and Altitude: a trackpoint after the
  first that lacks the field repeats the value before it. Location does the same when the
  position is missing.\<close>

lemma Measure_carry_forward:
  assumes "Measure_get_data aroot var = Inr (Some data)" and "k < length (trackpoints aroot)"
    and "0 < k" and "xpath_var (trackpoints aroot ! k) var = None"
  shows "data ! k = data ! (k - 1)"
proof -
  have k: "k < length data" using Measure_get_data_shape(1) [OF assms(1)] assms(2) by simp
  then have ne: "take k data \<noteq> []" using assms(3) by auto
  from Measure_get_data_shape(2) [OF assms(1) k] assms(4) ne
  have "take (Suc k) data = take k data @ [last (take k data)]"
    by (simp add: Measure_body_def py_last_def)
  then have "data ! k = last (take k data)" using k by (rule take_Suc_snoc)
  also have "\<dots> = data ! (k - 1)" using k ne by (simp add: last_conv_nth)
  finally show ?thesis .
qed

lemma Location_carry_forward:
  assumes "Location_init aroot = Inr (Some data)" and "k < length (trackpoints aroot)"
    and "0 < k" and "tp_Position (trackpoints aroot ! k) = None"
  shows "data ! k = data ! (k - 1)"
proof -
  from assms(1) have l: "for_trkpts Location_body (trackpoints aroot) [] = Inr data"
    by (auto simp: Location_init_def Location_get_data_def for_laps_flat trackpoints_def
        split: if_splits sum.splits)
  have len: "length data = length (trackpoints aroot)"
    using for_trkpts_prefix [OF Location_body_appends l] by simp
  then have k: "k < length data" using assms(2) by simp
  then have ne: "take k data \<noteq> []" using assms(3) by auto
  from for_trkpts_step [OF Location_body_appends l, where k = k] assms(2,4) ne
  have "take (Suc k) data = take k data @ [last (take k data)]"
    by (simp add: Location_body_def py_last_def)
  then have "data ! k = last (take k data)" using k by (rule take_Suc_snoc)
  also have "\<dots> = data ! (k - 1)" using k ne by (simp add: last_conv_nth)
  finally show ?thesis .
qed

text \<open>A field that occurs in the document and is missing on the first trackpoint: the
  \<open>except\<close> branch reads \<open>data[-1]\<close> of the empty list, an IndexError.\<close>

lemma Measure_first_missing:
  assumes "findall_var aroot var \<noteq> []" and "xpath_var (hd (trackpoints aroot)) var = None"
  shows "Measure_get_data aroot var = Inl IndexError"
proof -
  from assms(1) have "trackpoints aroot \<noteq> []"
    unfolding findall_var_def by (rule map_filter_nonempty)
  then obtain t ts where c: "trackpoints aroot = t # ts" by (cases "trackpoints aroot") auto
  then have "Measure_body var [] t = Inl IndexError"
    using assms(2) by (simp add: Measure_body_def py_last_def)
  then have "for_trkpts (Measure_body var) (trackpoints aroot) [] = Inl IndexError"
    unfolding c by (rule for_trkpts_first_error)
  then show ?thesis
    using assms(1) by (simp add: Measure_get_data_def for_laps_flat trackpoints_def)
qed

lemma Location_first_missing:
  assumes "findall_Position aroot \<noteq> []" and "tp_Position (hd (trackpoints aroot)) = None"
  shows "Location_init aroot = Inl IndexError"
proof -
  from assms(1) have "trackpoints aroot \<noteq> []"
    unfolding findall_Position_def by (rule map_filter_nonempty)
  then obtain t ts where c: "trackpoints aroot = t # ts" by (cases "trackpoints aroot") auto
  then have "Location_body [] t = Inl IndexError"
    using assms(2) by (simp add: Location_body_def py_last_def)
  then have "for_trkpts Location_body (trackpoints aroot) [] = Inl IndexError"
    unfolding c by (rule for_trkpts_first_error)
  then show ?thesis
    using assms(1)
    by (simp add: Location_init_def Location_get_data_def for_laps_flat trackpoints_def)
qed

text \<open>A field that no trackpoint has: the channel's data is \<open>None\<close>, and every accessor of
  an object whose data is \<open>None\<close> returns \<open>None\<close>.\<close>

lemma Measure_absent: "findall_var aroot var = [] \<Longrightarrow> Measure_get_data aroot var = Inr None"
  by (simp add: Measure_get_data_def)

lemma Location_absent: "findall_Position aroot = [] \<Longrightarrow> Location_init aroot = Inr None"
  by (simp add: Location_init_def Location_get_data_def)

lemma absent_statistics:
  "stat_min None = Inr None" "stat_max None = Inr None" "stat_average None = Inr None"
  "Distance_raw None = Inr None" "Distance_total None = Inr None"
  "Altitude_change None = Inr None"
  "Location_start None = Inr None" "Location_finish None = Inr None"
  "Location_latitude None = Inr None" "Location_longitude None = Inr None"
  "AbsTime_start None = Inr None" "AbsTime_finish None = Inr None"
  "Time_duration \<lparr>Time_data = None, absolute = a\<rparr> = Inr None"
  "Time_start \<lparr>Time_data = None, absolute = a\<rparr> = Inr None"
  "Time_finish \<lparr>Time_data = None, absolute = a\<rparr> = Inr None"
  by (simp_all add: stat_min_def stat_max_def stat_average_def Distance_raw_def
      Distance_total_def Altitude_change_def Location_start_def Location_finish_def
      Location_latitude_def Location_longitude_def AbsTime_start_def AbsTime_finish_def
      Time_duration_def Time_start_def Time_finish_def if_data_def)

section \<open>Time\<close>

text \<open>
  C10. For every Time channel that \<open>Time(root)\<close> constructs, \<open>duration\<close> returns the
  difference between what \<open>absolute.finish\<close> and \<open>absolute.start\<close> return: the last
  elapsed value is the last raw timestamp minus the first.
\<close>

theorem Time_duration_finish_minus_start:
  assumes "Time_init aroot = Inr tm"
  shows "\<exists>d s f. Time_duration tm = Inr (Some d) \<and> AbsTime_start (absolute tm) = Inr (Some s)
           \<and> AbsTime_finish (absolute tm) = Inr (Some f) \<and> d = f - s"
proof -
  from assms obtain data raw where g: "Time_get_data aroot = Inr (Some (data, raw))"
    and tm: "tm = \<lparr>Time_data = Some data, absolute = Some raw\<rparr>"
    by (auto simp: Time_init_def split: sum.splits option.splits)
  from Time_get_data_shape [OF g] have ne: "raw \<noteq> []" and d: "data = map (\<lambda>x. x - hd raw) raw"
    by auto
  have "Time_duration tm = Inr (Some (last raw - hd raw))"
    using ne d tm by (simp add: Time_duration_def if_data_def py_last_def last_map)
  moreover have "AbsTime_start (absolute tm) = Inr (Some (hd raw))"
    using ne tm by (cases raw) (simp_all add: AbsTime_start_def if_data_def py_first_def)
  moreover have "AbsTime_finish (absolute tm) = Inr (Some (last raw))"
    using ne tm by (simp add: AbsTime_finish_def if_data_def py_last_def)
  ultimately show ?thesis by blast
qed

theorem Time_duration_finish_minus_start_witness:
  "Time_init three_laps =
     Inr \<lparr>Time_data = Some [0, 10000000, 20000000, 30000000, 40000000, 50000000],
          absolute = Some [7000000, 17000000, 27000000, 37000000, 47000000, 57000000]\<rparr>
   \<and> Time_duration
         \<lparr>Time_data = Some [0, 10000000, 20000000, 30000000, 40000000, 50000000],
          absolute = Some [7000000, 17000000, 27000000, 37000000, 47000000, 57000000]\<rparr>
       = Inr (Some 50000000)
   \<and> AbsTime_start (Some [7000000, 17000000, 27000000, 37000000, 47000000, 57000000])
       = Inr (Some 7000000)
   \<and> AbsTime_finish (Some [7000000, 17000000, 27000000, 37000000, 47000000, 57000000])
       = Inr (Some 57000000)"
proof -
  have h: "Time_init three_laps =
     Inr \<lparr>Time_data = Some [0, 10000000, 20000000, 30000000, 40000000, 50000000],
          absolute = Some [7000000, 17000000, 27000000, 37000000, 47000000, 57000000]\<rparr>"
    by (simp add: three_laps_def Time_defs example_defs loop_defs value_defs)
  from Time_duration_finish_minus_start [OF h] obtain d s f where
    "Time_duration
       \<lparr>Time_data = Some [0, 10000000, 20000000, 30000000, 40000000, 50000000],
        absolute = Some [7000000, 17000000, 27000000, 37000000, 47000000, 57000000]\<rparr>
     = Inr (Some d)"
    and "AbsTime_start (Some [7000000, 17000000, 27000000, 37000000, 47000000, 57000000])
     = Inr (Some s)"
    and "AbsTime_finish (Some [7000000, 17000000, 27000000, 37000000, 47000000, 57000000])
     = Inr (Some f)"
    and "d = f - s"
    by auto
  then show ?thesis
    using h by (simp add: AbsTime_start_def AbsTime_finish_def value_defs)
qed

text \<open>\<open>Time(root)\<close> returns only when every trackpoint has a timestamp: the loop never
  carries a timestamp forward.\<close>

lemma Time_never_carries:
  assumes "Time_init aroot = Inr tm" and "k < length (trackpoints aroot)"
  shows "tp_Time (trackpoints aroot ! k) \<noteq> None"
proof -
  from assms(1) obtain raw where l: "for_trkpts Time_body (trackpoints aroot) [] = Inr raw"
    by (auto simp: Time_init_def Time_get_data_def for_laps_flat trackpoints_def
        split: if_splits sum.splits option.splits)
  have "Time_body (take k raw) (trackpoints aroot ! k) = Inr (take (Suc k) raw)"
    using for_trkpts_step [OF Time_body_appends l assms(2)] by simp
  then show ?thesis by (auto simp: Time_body_def split: option.splits)
qed

lemma Time_absent: "findall_Time aroot = [] \<Longrightarrow> Time_init aroot = Inl TypeError"
  by (simp add: Time_init_def Time_get_data_def)

text \<open>
  C2. The claim: a channel (Time, HeartRate, Distance, Speed, Cadence, Location, Altitude)
  whose field no trackpoint has is constructed as an absent channel, and its accessors
  return no result without raising. HeartRate, Distance, Speed, Cadence, Location and
  Altitude do so (\<open>Measure_absent\<close>, \<open>Location_absent\<close>, \<open>absent_statistics\<close>).
  \<open>Time.__init__\<close> does not: it unpacks the \<open>None\<close> that \<open>get_data\<close> returns and raises
  TypeError, and so does the parser. The document here has one trackpoint, with a distance
  and no timestamp.
\<close>

theorem Time_absent_TypeError:
  "findall_Time no_time = [] \<and> Time_init no_time = Inl TypeError
   \<and> TCXParser_init (holding no_time) (Some ''run.tcx'') = Inl TypeError"
proof -
  have f: "findall_Time no_time = []"
    by (simp add: no_time_def findall_Time_def example_defs loop_defs)
  then have t: "Time_init no_time = Inl TypeError" by (rule Time_absent)
  then have "TCXParser_init (holding no_time) (Some ''run.tcx'') = Inl TypeError"
    by (simp add: TCXParser_init_def get_root_run init_channels_def and_then_def)
  then show ?thesis using f t by simp
qed

text \<open>
  C4. The claim: in every channel whose field occurs in the document, a trackpoint
  \<open>k > 0\<close> that lacks the field gets the value of index \<open>k - 1\<close>; for Time, the raw
  timestamp is carried forward. The six extracted channels do so (\<open>Measure_carry_forward\<close>,
  \<open>Location_carry_forward\<close>). \<open>Time.get_data\<close> reads \<open>data[-1]\<close> where \<open>raw[-1]\<close> is
  meant; \<open>data\<close> is not yet assigned, and the constructor raises UnboundLocalError. The
  document here has a timestamp on the first trackpoint and none on the second.
\<close>

theorem Time_carry_forward_UnboundLocalError:
  "findall_Time time_gap \<noteq> [] \<and> tp_Time (trackpoints time_gap ! 0) = Some (Parses 0)
   \<and> tp_Time (trackpoints time_gap ! 1) = None
   \<and> Time_init time_gap = Inl UnboundLocalError"
  by (simp add: time_gap_def Time_defs example_defs loop_defs value_defs)

text \<open>
  C9. The claim: a channel whose field occurs in the document and is missing on the first
  trackpoint fails to construct, with an error of the index-out-of-range class. The six
  extracted channels raise IndexError (\<open>Measure_first_missing\<close>,
  \<open>Location_first_missing\<close>). Time fails too, but through the unassigned \<open>data\<close> of its
  \<open>except\<close> branch: the error is UnboundLocalError, a NameError. The document here has no
  timestamp on the first trackpoint and one on the second.
\<close>

theorem Time_first_missing_UnboundLocalError:
  "findall_Time time_late \<noteq> [] \<and> tp_Time (trackpoints time_late ! 0) = None
   \<and> Time_init time_late = Inl UnboundLocalError"
  by (simp add: time_late_def Time_defs example_defs loop_defs value_defs)

section \<open>Distance\<close>

text \<open>\<open>Distance.raw\<close> returns for a single sample and raises from the second sample on.\<close>

lemma Distance_raw_single: "Distance_raw (Some [v]) = Inr (Some [v])"
  by (simp add: Distance_raw_def if_data_def)

lemma Distance_raw_longer: "Distance_raw (Some (v # w # xs)) = Inl NameError"
  by (simp add: Distance_raw_def if_data_def)

text \<open>
  C1. The claim: for a present Distance channel, \<open>raw\<close> has the length of \<open>data\<close>, with
  \<open>raw[0] = data[0]\<close> and \<open>raw[i] = data[i] - data[i-1]\<close> for \<open>i > 0\<close>. In the code the
  branch for \<open>i > 0\<close> subtracts \<open>sum(li)\<close>, and \<open>li\<close> is bound nowhere: the property
  raises NameError as soon as there are two samples. For the distances 100 and 250 the
  claim asks for the increments 100 and 150.
\<close>

theorem Distance_raw_NameError:
  "Distance_init two_samples = Inr (Some [100, 250])
   \<and> Distance_raw (Some [100, 250]) = Inl NameError"
  by (simp add: two_samples_def Distance_init_def Measure_defs example_defs loop_defs value_defs
      Distance_raw_def)

section \<open>Pace\<close>

text \<open>The loop of \<open>Pace.get_data\<close> stops with ZeroDivisionError at a zero distance, and
  otherwise computes one value per pair of the zip.\<close>

lemma pace_loop_result:
  "pace_loop (Inr z) zs acc =
     (if \<exists>p \<in> set zs. snd p = 0 then Inl ZeroDivisionError
      else Inr (acc @ map (\<lambda>p. real_of_int (seconds (fst p - z)) / 60 / (snd p / 1000)) zs))"
  by (induction zs arbitrary: acc) (fastforce simp: py_truediv_def)+

lemma Pace_init_present:
  assumes "ts \<noteq> []" and "ds \<noteq> []"
  shows "Pace_init \<lparr>Time_data = Some ts, absolute = a\<rparr> (Some ds) =
     (if \<exists>p \<in> set (zip ts ds). snd p = 0 then Inl ZeroDivisionError
      else Inr (Some (map (\<lambda>p. real_of_int (seconds (fst p - hd ts)) / 60 / (snd p / 1000))
                       (zip ts ds))))"
proof -
  have "Measure_getitem (Some ts) 0 = Inr (hd ts)"
    using assms(1) by (cases ts) (simp_all add: Measure_getitem_def py_index_def)
  then show ?thesis
    using assms
    by (simp add: Pace_init_def Pace_get_data_def Measure_bool_def Measure_len_def
        Measure_iter_def pace_loop_result)
qed

lemma Pace_value:
  assumes "Pace_init \<lparr>Time_data = Some ts, absolute = a\<rparr> (Some ds) = Inr (Some p)"
    and "i < length ts" and "i < length ds"
  shows "p ! i = real_of_int (seconds (ts ! i - ts ! 0)) / 60 / (ds ! i / 1000)"
proof -
  have tne: "ts \<noteq> []" and dne: "ds \<noteq> []" using assms(2,3) by auto
  from assms(1) have "p = map (\<lambda>p. real_of_int (seconds (fst p - hd ts)) / 60 / (snd p / 1000))
      (zip ts ds)"
    unfolding Pace_init_present [OF tne dne] by (auto split: if_splits)
  then show ?thesis using assms(2,3) tne by (simp add: hd_conv_nth)
qed

lemma Pace_absent_channel:
  "Pace_init \<lparr>Time_data = None, absolute = a\<rparr> d = Inl TypeError"
  "ts \<noteq> [] \<Longrightarrow> Pace_init \<lparr>Time_data = Some ts, absolute = a\<rparr> None = Inl TypeError"
  by (simp_all add: Pace_init_def Pace_get_data_def Measure_bool_def Measure_len_def)

lemma Pace_length:
  assumes "Time_init aroot = Inr tm" and "Distance_init aroot = Inr (Some ds)"
    and "Pace_init tm (Some ds) = Inr (Some p)"
  shows "Measure_len (Some p) = Measure_len (Time_data tm)
    \<and> Measure_len (Some p) = Measure_len (Some ds)"
proof -
  from assms(1) obtain data raw where g: "Time_get_data aroot = Inr (Some (data, raw))"
    and tm: "tm = \<lparr>Time_data = Some data, absolute = Some raw\<rparr>"
    by (auto simp: Time_init_def split: sum.splits option.splits)
  from Time_get_data_shape [OF g]
  have tne: "data \<noteq> []" and tlen: "length data = length (trackpoints aroot)" by auto
  have m: "Measure_get_data aroot ''DistanceMeters'' = Inr (Some ds)"
    using assms(2) by (simp add: Distance_init_def)
  from Measure_get_data_shape(1) [OF m]
  have dne: "ds \<noteq> []" and dlen: "length ds = length (trackpoints aroot)" by auto
  from assms(3) have "length p = length (zip data ds)"
    unfolding tm Pace_init_present [OF tne dne] by (auto split: if_splits)
  then show ?thesis using tm tlen dlen by (simp add: Measure_len_def)
qed

text \<open>
  C3. The claim: Pace built from an absent Time or an absent Distance channel is an absent
  channel, and no error is raised; with both present, Pace has the length of Time and of
  Distance. The second half holds whenever Pace is constructed (\<open>Pace_length\<close>). The
  first half fails: the test \<open>_time and dist\<close> takes the truth value of each object through
  \<open>__len__\<close>, which is \<open>len(None)\<close> for an absent channel, a TypeError
  (\<open>Pace_absent_channel\<close>). The document here has a timestamp on its one trackpoint and no
  distance.
\<close>

theorem Pace_absent_Distance_TypeError:
  "Time_init time_only = Inr \<lparr>Time_data = Some [0], absolute = Some [0]\<rparr>
   \<and> Distance_init time_only = Inr None
   \<and> Pace_init \<lparr>Time_data = Some [0], absolute = Some [0]\<rparr> None = Inl TypeError
   \<and> TCXParser_init (holding time_only) (Some ''run.tcx'') = Inl TypeError"
proof -
  have t: "Time_init time_only = Inr \<lparr>Time_data = Some [0], absolute = Some [0]\<rparr>"
    by (simp add: time_only_def Time_defs example_defs loop_defs value_defs)
  have d: "Distance_init time_only = Inr None"
    by (simp add: time_only_def Distance_init_def Measure_defs example_defs loop_defs)
  have o: "HeartRate_init time_only = Inr None" "Speed_init time_only = Inr None"
    "Cadence_init time_only = Inr None" "Location_init time_only = Inr None"
    "Altitude_init time_only = Inr None"
    by (simp_all add: time_only_def HeartRate_init_def Speed_init_def Cadence_init_def
        Altitude_init_def Measure_defs Location_defs example_defs loop_defs)
  have p: "Pace_init \<lparr>Time_data = Some [0], absolute = Some [0]\<rparr> None = Inl TypeError"
    by (simp add: Pace_absent_channel)
  have "TCXParser_init (holding time_only) (Some ''run.tcx'') = Inl TypeError"
    using t d o p by (simp add: TCXParser_init_def get_root_run init_channels_def and_then_def)
  then show ?thesis using t d p by simp
qed

lemma init_channels_Pace_error:
  assumes "Time_init aroot = Inr tm" and "Distance_init aroot = Inr di"
    and "Pace_init tm di = Inl e"
  shows "init_channels aroot =
     and_then (HeartRate_init aroot) (\<lambda>hr.
     and_then (Speed_init aroot) (\<lambda>sp.
     and_then (Cadence_init aroot) (\<lambda>ca.
     and_then (Location_init aroot) (\<lambda>lo.
     and_then (Altitude_init aroot) (\<lambda>al. Inl e)))))"
  using assms by (simp add: init_channels_def and_then_def split: sum.splits)

text \<open>
  C5, as amended. In a document where Time and Distance are both constructed and some
  trackpoint has the cumulative distance zero, constructing Pace raises ZeroDivisionError.
  The parser on such a file never returns an object: it raises the error of the first of
  HeartRate, Speed, Cadence, Location and Altitude (in this order, the order in which it
  constructs them before Pace) whose constructor raises, and ZeroDivisionError when none
  of them raises.
\<close>

theorem Pace_zero_distance_ZeroDivisionError:
  assumes "get_root fs tcx_file = Inr (Some aroot)"
    and "Time_init aroot = Inr tm" and "Distance_init aroot = Inr (Some ds)"
    and "k < length (trackpoints aroot)"
    and "tp_DistanceMeters (trackpoints aroot ! k) = Some (Parses 0)"
  shows "Pace_init tm (Some ds) = Inl ZeroDivisionError
    \<and> TCXParser_init fs tcx_file =
        and_then (HeartRate_init aroot) (\<lambda>hr.
        and_then (Speed_init aroot) (\<lambda>sp.
        and_then (Cadence_init aroot) (\<lambda>ca.
        and_then (Location_init aroot) (\<lambda>lo.
        and_then (Altitude_init aroot) (\<lambda>al. Inl ZeroDivisionError)))))
    \<and> (\<exists>e. TCXParser_init fs tcx_file = Inl e)
    \<and> ((\<exists>hr sp ca lo al. HeartRate_init aroot = Inr hr \<and> Speed_init aroot = Inr sp
          \<and> Cadence_init aroot = Inr ca \<and> Location_init aroot = Inr lo
          \<and> Altitude_init aroot = Inr al)
        \<longrightarrow> TCXParser_init fs tcx_file = Inl ZeroDivisionError)"
proof -
  from assms(2) obtain data raw where g: "Time_get_data aroot = Inr (Some (data, raw))"
    and tm: "tm = \<lparr>Time_data = Some data, absolute = Some raw\<rparr>"
    by (auto simp: Time_init_def split: sum.splits option.splits)
  from Time_get_data_shape [OF g]
  have tne: "data \<noteq> []" and tlen: "length data = length (trackpoints aroot)" by auto
  have m: "Measure_get_data aroot ''DistanceMeters'' = Inr (Some ds)"
    using assms(3) by (simp add: Distance_init_def)
  from Measure_get_data_shape(1) [OF m]
  have dne: "ds \<noteq> []" and dlen: "length ds = length (trackpoints aroot)" by auto
  have "ds ! k = 0"
    using Measure_field_value [OF m assms(4)] assms(5) by (simp add: xpath_var_def)
  then have "snd (zip data ds ! k) = 0" using assms(4) tlen dlen by simp
  moreover have "zip data ds ! k \<in> set (zip data ds)"
    using assms(4) tlen dlen by (intro nth_mem) simp
  ultimately have "\<exists>p \<in> set (zip data ds). snd p = 0" by blast
  then have p: "Pace_init tm (Some ds) = Inl ZeroDivisionError"
    using Pace_init_present [OF tne dne] tm by simp
  have "TCXParser_init fs tcx_file = init_channels aroot"
    using assms(1) by (simp add: TCXParser_init_def)
  then have q: "TCXParser_init fs tcx_file =
        and_then (HeartRate_init aroot) (\<lambda>hr.
        and_then (Speed_init aroot) (\<lambda>sp.
        and_then (Cadence_init aroot) (\<lambda>ca.
        and_then (Location_init aroot) (\<lambda>lo.
        and_then (Altitude_init aroot) (\<lambda>al. Inl ZeroDivisionError)))))"
    using init_channels_Pace_error [OF assms(2,3) p] by simp
  have r: "\<exists>e. TCXParser_init fs tcx_file = Inl e"
    unfolding q by (auto simp: and_then_def split: sum.splits)
  have "TCXParser_init fs tcx_file = Inl ZeroDivisionError"
    if "\<exists>hr sp ca lo al. HeartRate_init aroot = Inr hr \<and> Speed_init aroot = Inr sp
          \<and> Cadence_init aroot = Inr ca \<and> Location_init aroot = Inr lo
          \<and> Altitude_init aroot = Inr al"
    using that unfolding q by (auto simp: and_then_def)
  then show ?thesis using p q r by blast
qed

theorem Pace_zero_distance_ZeroDivisionError_witness:
  "get_root (holding zero_start) (Some ''run.tcx'') = Inr (Some zero_start)
   \<and> Time_init zero_start = Inr \<lparr>Time_data = Some [0, 10000000], absolute = Some [0, 10000000]\<rparr>
   \<and> Distance_init zero_start = Inr (Some [0, 50])
   \<and> 0 < length (trackpoints zero_start)
   \<and> tp_DistanceMeters (trackpoints zero_start ! 0) = Some (Parses 0)
   \<and> HeartRate_init zero_start = Inr None \<and> Speed_init zero_start = Inr None
   \<and> Cadence_init zero_start = Inr None \<and> Location_init zero_start = Inr None
   \<and> Altitude_init zero_start = Inr None
   \<and> Pace_init \<lparr>Time_data = Some [0, 10000000], absolute = Some [0, 10000000]\<rparr> (Some [0, 50])
       = Inl ZeroDivisionError
   \<and> TCXParser_init (holding zero_start) (Some ''run.tcx'') = Inl ZeroDivisionError"
proof -
  have r: "get_root (holding zero_start) (Some ''run.tcx'') = Inr (Some zero_start)"
    by (rule get_root_run)
  have t: "Time_init zero_start =
      Inr \<lparr>Time_data = Some [0, 10000000], absolute = Some [0, 10000000]\<rparr>"
    by (simp add: zero_start_def Time_defs example_defs loop_defs value_defs)
  have d: "Distance_init zero_start = Inr (Some [0, 50])"
    by (simp add: zero_start_def Distance_init_def Measure_defs example_defs loop_defs value_defs)
  have k: "0 < length (trackpoints zero_start)"
    by (simp add: zero_start_def example_defs loop_defs)
  have z: "tp_DistanceMeters (trackpoints zero_start ! 0) = Some (Parses 0)"
    by (simp add: zero_start_def example_defs loop_defs)
  have o: "HeartRate_init zero_start = Inr None" "Speed_init zero_start = Inr None"
    "Cadence_init zero_start = Inr None" "Location_init zero_start = Inr None"
    "Altitude_init zero_start = Inr None"
    by (simp_all add: zero_start_def HeartRate_init_def Speed_init_def Cadence_init_def
        Altitude_init_def Measure_defs Location_defs example_defs loop_defs)
  show ?thesis
    using Pace_zero_distance_ZeroDivisionError [OF r t d k z] r t d k z o
    by (simp add: and_then_def)
qed

text \<open>The claim as stated has the parser raise the division error on every such file. In
  this one the heart rate is missing on the first trackpoint and present on the second:
  HeartRate is constructed before Pace and raises IndexError first.\<close>

theorem TCXParser_zero_distance_counterexample:
  "get_root (holding zero_start_late_heartrate) (Some ''run.tcx'')
     = Inr (Some zero_start_late_heartrate)
   \<and> Time_init zero_start_late_heartrate
     = Inr \<lparr>Time_data = Some [0, 10000000], absolute = Some [0, 10000000]\<rparr>
   \<and> Distance_init zero_start_late_heartrate = Inr (Some [0, 50])
   \<and> tp_DistanceMeters (trackpoints zero_start_late_heartrate ! 0) = Some (Parses 0)
   \<and> TCXParser_init (holding zero_start_late_heartrate) (Some ''run.tcx'') = Inl IndexError"
proof -
  have t: "Time_init zero_start_late_heartrate =
      Inr \<lparr>Time_data = Some [0, 10000000], absolute = Some [0, 10000000]\<rparr>"
    by (simp add: zero_start_late_heartrate_def Time_defs example_defs loop_defs value_defs)
  have d: "Distance_init zero_start_late_heartrate = Inr (Some [0, 50])"
    by (simp add: zero_start_late_heartrate_def Distance_init_def Measure_defs example_defs
        loop_defs value_defs)
  have z: "tp_DistanceMeters (trackpoints zero_start_late_heartrate ! 0) = Some (Parses 0)"
    by (simp add: zero_start_late_heartrate_def example_defs loop_defs)
  have h: "HeartRate_init zero_start_late_heartrate = Inl IndexError"
    by (simp add: zero_start_late_heartrate_def HeartRate_init_def Measure_defs example_defs
        loop_defs value_defs)
  have "TCXParser_init (holding zero_start_late_heartrate) (Some ''run.tcx'') = Inl IndexError"
    using t h by (simp add: TCXParser_init_def get_root_run init_channels_def and_then_def)
  then show ?thesis using get_root_run t d z by simp
qed

text \<open>The seconds field agrees with the elapsed seconds for a whole number of seconds
  under one day, and only then.\<close>

lemma seconds_eq_total_seconds:
  assumes "0 \<le> td" and "td < 86400000000" and "td mod 1000000 = 0"
  shows "real_of_int (seconds td) = total_seconds td"
proof -
  from assms(3) obtain q where q: "td = 1000000 * q" by (auto simp: mod_eq_0_iff_dvd)
  with assms(1,2) have "0 \<le> q" "q < 86400" by auto
  then show ?thesis using q by (simp add: seconds_def total_seconds_def)
qed

text \<open>
  C6. The claim: with Time and Distance present, the pace at index \<open>i\<close> is
  (elapsed seconds at \<open>i\<close> / 60) / (cumulative distance at \<open>i\<close> / 1000). The code takes the
  \<open>seconds\<close> attribute of the elapsed timedelta (\<open>Pace_value\<close>), which drops the
  microseconds and the days. The document here has samples at 0 s, 90.5 s and one day
  and 60 s, with distances of 1, 2 and 3 km: the code computes the paces 0, 3/4 and 1/3,
  where the elapsed seconds give 0, 181/240 and 1441/3.
\<close>

theorem Pace_seconds_field:
  "Time_init long_run =
     Inr \<lparr>Time_data = Some [0, 90500000, 86460000000], absolute = Some [0, 90500000, 86460000000]\<rparr>
   \<and> Distance_init long_run = Inr (Some [1000, 2000, 3000])
   \<and> Pace_init \<lparr>Time_data = Some [0, 90500000, 86460000000],
                 absolute = Some [0, 90500000, 86460000000]\<rparr> (Some [1000, 2000, 3000])
       = Inr (Some [0, 3 / 4, 1 / 3])
   \<and> total_seconds 90500000 / 60 / (2000 / 1000) = 181 / 240
   \<and> total_seconds 86460000000 / 60 / (3000 / 1000) = 1441 / 3"
  by (simp add: long_run_def Time_defs Distance_init_def Measure_defs example_defs
      loop_defs value_defs Pace_init_present seconds_def total_seconds_def)

lemma py_max_Max: "xs \<noteq> [] \<Longrightarrow> py_max xs = Inr (Max (set xs))"
  by (cases xs) (simp_all add: Max.set_eq_fold [symmetric])

lemma py_min_Min: "xs \<noteq> [] \<Longrightarrow> py_min xs = Inr (Min (set xs))"
  by (cases xs) (simp_all add: Min.set_eq_fold [symmetric])

text \<open>
  C7, as amended. For every present Pace channel, \<open>min\<close> returns the maximum of the pace
  sequence and \<open>average\<close> its last element; when the sequence has a strictly positive
  element, \<open>max\<close> returns the least of its strictly positive elements.
\<close>

theorem Pace_min_max_average:
  assumes "xs \<noteq> []"
  shows "Pace_min (Some xs) = Inr (Some (Max (set xs)))
    \<and> Pace_average (Some xs) = Inr (Some (last xs))
    \<and> ((\<exists>x \<in> set xs. 0 < x) \<longrightarrow>
         Pace_max (Some xs) = Inr (Some (Min {x \<in> set xs. 0 < x})))"
proof -
  have "Pace_min (Some xs) = Inr (Some (Max (set xs)))"
    using assms by (simp add: Pace_min_def if_data_def py_max_Max)
  moreover have "Pace_average (Some xs) = Inr (Some (last xs))"
    using assms by (simp add: Pace_average_def if_data_def py_last_def)
  moreover have "Pace_max (Some xs) = Inr (Some (Min {x \<in> set xs. 0 < x}))"
    if "\<exists>x \<in> set xs. 0 < x"
  proof -
    from that have "filter (\<lambda>x. x > 0) xs \<noteq> []" by (auto simp: filter_empty_conv)
    then have "py_min (filter (\<lambda>x. x > 0) xs) = Inr (Min (set (filter (\<lambda>x. x > 0) xs)))"
      by (rule py_min_Min)
    then show ?thesis using assms by (simp add: Pace_max_def if_data_def)
  qed
  ultimately show ?thesis by blast
qed

theorem Pace_min_max_average_witness:
  "[0, 3 / 4, 1 / 3] \<noteq> ([] :: real list)
   \<and> (\<exists>x \<in> set [0, 3 / 4, 1 / 3 :: real]. 0 < x)
   \<and> Pace_min (Some [0, 3 / 4, 1 / 3]) = Inr (Some (3 / 4))
   \<and> Pace_average (Some [0, 3 / 4, 1 / 3]) = Inr (Some (1 / 3))
   \<and> Pace_max (Some [0, 3 / 4, 1 / 3]) = Inr (Some (1 / 3))"
proof -
  have n: "[0, 3 / 4, 1 / 3] \<noteq> ([] :: real list)" by simp
  have p: "\<exists>x \<in> set [0, 3 / 4, 1 / 3 :: real]. 0 < x" by simp
  have s: "{x \<in> set [0, 3 / 4, 1 / 3 :: real]. 0 < x} = {3 / 4, 1 / 3}" by auto
  show ?thesis using Pace_min_max_average [OF n] n p s by simp
qed

text \<open>The claim as stated has \<open>max\<close> return for every present Pace channel. The first
  pace value is always zero, so a document with a single trackpoint gives the pace
  sequence \<open>[0]\<close>, with no positive element: \<open>min\<close> of the empty list raises ValueError.\<close>

theorem Pace_max_counterexample:
  "Time_init single_sample = Inr \<lparr>Time_data = Some [0], absolute = Some [0]\<rparr>
   \<and> Distance_init single_sample = Inr (Some [1000])
   \<and> Pace_init \<lparr>Time_data = Some [0], absolute = Some [0]\<rparr> (Some [1000]) = Inr (Some [0])
   \<and> Pace_max (Some [0]) = Inl ValueError"
  by (simp add: single_sample_def Time_defs Distance_init_def Measure_defs example_defs
      loop_defs value_defs Pace_init_present seconds_def Pace_max_def)

section \<open>TCXParser\<close>

text \<open>Without a path, or with a path that ends in neither \<open>.tcx\<close> nor \<open>.xml\<close>, the
  parser object has no attribute set.\<close>

lemma TCXParser_no_path: "TCXParser_init fs None = Inr no_attributes"
  by (simp add: TCXParser_init_def get_root_def)

lemma TCXParser_other_extension:
  "\<not> suffix ''.tcx'' (lower path) \<Longrightarrow> \<not> suffix ''.xml'' (lower path) \<Longrightarrow>
     TCXParser_init fs (Some path) = Inr no_attributes"
  by (simp add: TCXParser_init_def get_root_def)

text \<open>
  C8. The claim: when the path is absent, has an unrecognized extension, or names a
  document without the expected root element, the parser returns an object with no
  channel and does not raise. The first two cases hold (\<open>TCXParser_no_path\<close>,
  \<open>TCXParser_other_extension\<close>). In the third, \<open>get_root\<close> indexes the empty result of
  the root selector with \<open>[0]\<close> before its test \<open>if not root is None\<close>, and raises
  IndexError.
\<close>

theorem TCXParser_other_root_IndexError:
  "get_root other_root (Some ''run.tcx'') = Inl IndexError
   \<and> TCXParser_init other_root (Some ''run.tcx'') = Inl IndexError"
  by (simp add: TCXParser_init_def root_defs other_root_def)

end
